theory Spec2Isabelle
  imports Main "HOL-Library.Word"
begin

section \<open>The Audio feature of \<^verbatim>\<open>src/datasets/features/audio.py\<close>\<close>

text \<open>
  The module is an orchestration of three external libraries (librosa, soundfile,
  torchaudio). The libraries are not part of the repository, so they are parameters of
  the model: a record of the functions the code calls, over an abstract type of numpy
  arrays and an abstract type of torch tensors. Every \<^verbatim>\<open>raise\<close> is a value
  \<open>Inl\<close> of the result, the lazily created attribute \<^verbatim>\<open>_resampler\<close> is a
  field of an explicit instance state, and every call that leaves the class is recorded
  in a trace, in the order in which the code makes it.
\<close>

subsection \<open>Values\<close>

type_synonym bytes = "8 word list"

text \<open>A Python exception: its class name and its message.\<close>

datatype exn = Exn (exn_class: string) (exn_msg: string)

text \<open>
  What \<^verbatim>\<open>decode_example\<close> receives: a \<^verbatim>\<open>str\<close> (the path), or a
  \<^verbatim>\<open>dict\<close> with the keys \<^verbatim>\<open>"path"\<close> and \<^verbatim>\<open>"bytes"\<close>.
\<close>

datatype py_value = Str string | Dict string bytes

text \<open>The pyarrow types built by \<^verbatim>\<open>__call__\<close>.\<close>

datatype pa_type = pa_string | pa_binary | pa_struct "(string \<times> pa_type) list"

text \<open>
  The dataclass fields. \<^verbatim>\<open>mono\<close> and \<^verbatim>\<open>id\<close> are renamed, since both names
  are constants of HOL. The class variables \<^verbatim>\<open>dtype\<close>, \<^verbatim>\<open>pa_type\<close> and the
  fixed field \<^verbatim>\<open>_type\<close> are read by no method of the class.
\<close>

record Audio =
  sampling_rate :: "int option"
  mono_flag :: bool
  archived :: bool
  id_field :: "string option"

text \<open>The values stored in the dictionary that \<^verbatim>\<open>decode_example\<close> returns.\<close>

datatype 'arr py_obj = PStr string | PArr 'arr | PInt int

type_synonym 'arr py_dict = "(string \<times> 'arr py_obj) list"

subsection \<open>The external libraries\<close>

text \<open>What \<^verbatim>\<open>torchaudio.load\<close> is given: a path, or a \<^verbatim>\<open>BytesIO\<close> buffer.\<close>

datatype source = FromPath string | FromBuffer bytes

text \<open>
  The flags say whether an \<^verbatim>\<open>import\<close> succeeds (\<open>has_sox_io\<close>: whether
  \<^verbatim>\<open>torchaudio.set_audio_backend("sox_io")\<close> returns without \<^verbatim>\<open>RuntimeError\<close>).
  The loaders may raise; \<open>Resample_call (orig, new) t\<close> is the object
  \<^verbatim>\<open>T.Resample(orig, new)\<close> applied to the tensor \<open>t\<close>. The last field belongs
  to the interpreter rather than to a library: the message of the \<^verbatim>\<open>TypeError\<close> it
  raises when a \<^verbatim>\<open>str\<close> is indexed by a \<^verbatim>\<open>str\<close>, whose text depends on the
  version of Python.
\<close>

record ('arr, 'tensor) libs =
  has_librosa :: bool
  has_soundfile :: bool
  has_torchaudio :: bool
  has_transforms :: bool
  has_sox_io :: bool
  open_rb :: "string \<Rightarrow> exn + bytes"
  librosa_load :: "bytes \<Rightarrow> int option \<Rightarrow> bool \<Rightarrow> exn + ('arr \<times> int)"
  sf_read :: "bytes \<Rightarrow> exn + ('arr \<times> int)"
  ndarray_T :: "'arr \<Rightarrow> 'arr"
  librosa_to_mono :: "'arr \<Rightarrow> 'arr"
  librosa_resample :: "'arr \<Rightarrow> int \<Rightarrow> int \<Rightarrow> 'arr"
  torchaudio_load :: "source \<Rightarrow> exn + ('tensor \<times> int)"
  Resample_call :: "int \<times> int \<Rightarrow> 'tensor \<Rightarrow> 'tensor"
  tensor_numpy :: "'tensor \<Rightarrow> 'arr"
  ndarray_mean :: "'arr \<Rightarrow> 'arr"
  str_index_msg :: string

subsection \<open>Instance state and trace\<close>

datatype backend = librosa | soundfile | torchaudio

text \<open>
  \<open>Invoke b\<close>: the method \<^verbatim>\<open>_decode_example_with_b\<close> is entered. The other events
  are the calls into the libraries; the resampling events carry the two rates.
\<close>

datatype event =
    Invoke backend
  | Open
  | LibrosaLoad
  | SfRead
  | Transpose
  | ToMono
  | LibrosaResample int int
  | SetAudioBackend
  | TorchaudioLoad
  | NewResample int int
  | ApplyResample int int
  | Numpy
  | Mean

text \<open>
  \<open>resampler\<close> is the attribute \<^verbatim>\<open>_resampler\<close>: \<open>None\<close> while
  \<^verbatim>\<open>hasattr(self, "_resampler")\<close> is false, otherwise the two rates the object was
  constructed with.
\<close>

record audio_state =
  resampler :: "(int \<times> int) option"
  trace :: "event list"

definition emit :: "event \<Rightarrow> audio_state \<Rightarrow> audio_state" where
  "emit e s = s\<lparr>trace := trace s @ [e]\<rparr>"

subsection \<open>Helpers of the language\<close>

text \<open>\<^verbatim>\<open>str.endswith\<close>, comparing characters as they are.\<close>

definition endswith :: "string \<Rightarrow> string \<Rightarrow> bool" where
  "endswith s suf = (length suf \<le> length s \<and> drop (length s - length suf) s = suf)"

text \<open>
  The test \<^verbatim>\<open>self.sampling_rate and self.sampling_rate != sampling_rate\<close>:
  \<^verbatim>\<open>None\<close> and \<^verbatim>\<open>0\<close> are both false in Python. The result is the target rate
  when the test succeeds.
\<close>

definition resample_target :: "int option \<Rightarrow> int \<Rightarrow> int option" where
  "resample_target sr native =
     (case sr of
        None \<Rightarrow> None
      | Some t \<Rightarrow> if t \<noteq> 0 \<and> t \<noteq> native then Some t else None)"

text \<open>\<^verbatim>\<open>decoded_batch[k].append(v)\<close> on a \<^verbatim>\<open>defaultdict(list)\<close>.\<close>

definition append_item :: "(string \<rightharpoonup> 'v list) \<Rightarrow> string \<Rightarrow> 'v \<Rightarrow> (string \<rightharpoonup> 'v list)" where
  "append_item d k v = d(k \<mapsto> (case d k of None \<Rightarrow> [] | Some vs \<Rightarrow> vs) @ [v])"

subsection \<open>The methods\<close>

definition Audio_call :: "Audio \<Rightarrow> pa_type" where
  "Audio_call self =
     (if \<not> archived self then pa_string
      else pa_struct [(''path'', pa_string), (''bytes'', pa_binary)])"

definition librosa_missing :: exn where
  "librosa_missing =
     Exn ''ImportError'' ''To support decoding audio files, please install 'librosa'.''"

definition torchaudio_missing :: exn where
  "torchaudio_missing =
     Exn ''ImportError'' ''To support decoding 'mp3' audio files, please install 'torchaudio'.''"

definition sox_missing :: exn where
  "sox_missing =
     Exn ''ImportError'' ''To support decoding 'mp3' audio files, please install 'sox'.''"

definition decode_example_with_librosa ::
  "('arr, 'tensor) libs \<Rightarrow> Audio \<Rightarrow> string \<Rightarrow> audio_state
     \<Rightarrow> (exn + 'arr \<times> int) \<times> audio_state" where
  "decode_example_with_librosa L self val s0 =
     (let s1 = emit (Invoke librosa) s0 in
      if \<not> has_librosa L then (Inl librosa_missing, s1)
      else
        (case open_rb L val of
           Inl err \<Rightarrow> (Inl err, emit Open s1)
         | Inr f \<Rightarrow>
             (let s2 = emit LibrosaLoad (emit Open s1) in
              case librosa_load L f (sampling_rate self) (mono_flag self) of
                Inl err \<Rightarrow> (Inl err, s2)
              | Inr (array, rate) \<Rightarrow> (Inr (array, rate), s2))))"

definition decode_example_with_soundfile ::
  "('arr, 'tensor) libs \<Rightarrow> Audio \<Rightarrow> bytes \<Rightarrow> audio_state
     \<Rightarrow> (exn + 'arr \<times> int) \<times> audio_state" where
  "decode_example_with_soundfile L self file s0 =
     (let s1 = emit (Invoke soundfile) s0 in
      if \<not> (has_librosa L \<and> has_soundfile L) then (Inl librosa_missing, s1)
      else
        (let s2 = emit SfRead s1 in
         case sf_read L file of
           Inl err \<Rightarrow> (Inl err, s2)
         | Inr (array0, rate0) \<Rightarrow>
             (let array1 = ndarray_T L array0;
                  s3 = emit Transpose s2;
                  (array2, s4) =
                    (if mono_flag self then (librosa_to_mono L array1, emit ToMono s3)
                     else (array1, s3))
              in case resample_target (sampling_rate self) rate0 of
                   Some target \<Rightarrow>
                     (Inr (librosa_resample L array2 rate0 target, target),
                      emit (LibrosaResample rate0 target) s4)
                 | None \<Rightarrow> (Inr (array2, rate0), s4))))"

definition decode_example_with_torchaudio ::
  "('arr, 'tensor) libs \<Rightarrow> Audio \<Rightarrow> source \<Rightarrow> audio_state
     \<Rightarrow> (exn + 'arr \<times> int) \<times> audio_state" where
  "decode_example_with_torchaudio L self val s0 =
     (let s1 = emit (Invoke torchaudio) s0 in
      if \<not> (has_torchaudio L \<and> has_transforms L) then (Inl torchaudio_missing, s1)
      else
        (let s2 = emit SetAudioBackend s1 in
         if \<not> has_sox_io L then (Inl sox_missing, s2)
         else
           (let s3 = emit TorchaudioLoad s2 in
            case torchaudio_load L val of
              Inl err \<Rightarrow> (Inl err, s3)
            | Inr (tensor0, rate0) \<Rightarrow>
                (let (tensor1, rate1, s5) =
                       (case resample_target (sampling_rate self) rate0 of
                          Some target \<Rightarrow>
                            (let (r, s4) =
                                   (case resampler s3 of
                                      None \<Rightarrow>
                                        ((rate0, target),
                                         emit (NewResample rate0 target)
                                           (s3\<lparr>resampler := Some (rate0, target)\<rparr>))
                                    | Some r \<Rightarrow> (r, s3))
                             in (Resample_call L r tensor0, target,
                                 emit (ApplyResample (fst r) (snd r)) s4))
                        | None \<Rightarrow> (tensor0, rate0, s3));
                     array0 = tensor_numpy L tensor1;
                     s6 = emit Numpy s5
                 in if mono_flag self then (Inr (ndarray_mean L array0, rate1), emit Mean s6)
                    else (Inr (array0, rate1), s6)))))"

text \<open>
  \<^verbatim>\<open>decode_example\<close>. With \<^verbatim>\<open>archived\<close> set, \<^verbatim>\<open>value["path"]\<close> on a
  \<^verbatim>\<open>str\<close> raises \<^verbatim>\<open>TypeError\<close>; without it, \<^verbatim>\<open>path = value\<close> succeeds for
  a \<^verbatim>\<open>dict\<close> and \<^verbatim>\<open>path.endswith\<close> raises \<^verbatim>\<open>AttributeError\<close>.
\<close>

text \<open>
  Both exceptions are raised by the interpreter. The message of the first is the one the
  environment gives; the message of the second is
  \<^verbatim>\<open>'dict' object has no attribute 'endswith'\<close>, with its quotation marks
  (\<open>CHR 0x27\<close> at both ends).
\<close>

definition str_index_error :: "('arr, 'tensor) libs \<Rightarrow> exn" where
  "str_index_error L = Exn ''TypeError'' (str_index_msg L)"

definition dict_endswith_error :: exn where
  "dict_endswith_error =
     Exn ''AttributeError''
       (CHR 0x27 # ''dict' object has no attribute 'endswith'' @ [CHR 0x27])"

definition decoded ::
  "string \<Rightarrow> (exn + 'arr \<times> int) \<times> audio_state \<Rightarrow> (exn + 'arr py_dict) \<times> audio_state" where
  "decoded path r =
     (case r of
        (Inl err, s) \<Rightarrow> (Inl err, s)
      | (Inr (array, rate), s) \<Rightarrow>
          (Inr [(''path'', PStr path), (''array'', PArr array), (''sampling_rate'', PInt rate)],
           s))"

definition decode_example ::
  "('arr, 'tensor) libs \<Rightarrow> Audio \<Rightarrow> py_value \<Rightarrow> audio_state
     \<Rightarrow> (exn + 'arr py_dict) \<times> audio_state" where
  "decode_example L self val s =
     (if archived self then
        (case val of
           Str _ \<Rightarrow> (Inl (str_index_error L), s)
         | Dict path file \<Rightarrow>
             decoded path
               (if endswith path ''.mp3''
                then decode_example_with_torchaudio L self (FromBuffer file) s
                else decode_example_with_soundfile L self file s))
      else
        (case val of
           Dict _ _ \<Rightarrow> (Inl dict_endswith_error, s)
         | Str path \<Rightarrow>
             decoded path
               (if endswith path ''.mp3''
                then decode_example_with_torchaudio L self (FromPath path) s
                else decode_example_with_librosa L self path s)))"

text \<open>
  \<^verbatim>\<open>decode_batch\<close>. The inner loop, over the items of one decoded example in the
  order of their insertion:
\<close>

definition add_example ::
  "(string \<rightharpoonup> 'v list) \<Rightarrow> (string \<times> 'v) list \<Rightarrow> (string \<rightharpoonup> 'v list)" where
  "add_example decoded_batch decoded_example =
     foldl (\<lambda>d (k, v). append_item d k v) decoded_batch decoded_example"

text \<open>
  The outer loop, over \<^verbatim>\<open>values\<close>, with the dictionary built so far. An exception
  of \<^verbatim>\<open>decode_example\<close> leaves the loop.
\<close>

fun decode_batch_loop ::
  "('arr, 'tensor) libs \<Rightarrow> Audio \<Rightarrow> py_value list \<Rightarrow> (string \<rightharpoonup> 'arr py_obj list)
     \<Rightarrow> audio_state \<Rightarrow> (exn + (string \<rightharpoonup> 'arr py_obj list)) \<times> audio_state" where
  "decode_batch_loop L self [] decoded_batch s = (Inr decoded_batch, s)"
| "decode_batch_loop L self (val # vals) decoded_batch s =
     (case decode_example L self val s of
        (Inl err, s') \<Rightarrow> (Inl err, s')
      | (Inr decoded_example, s') \<Rightarrow>
          decode_batch_loop L self vals (add_example decoded_batch decoded_example) s')"

definition decode_batch ::
  "('arr, 'tensor) libs \<Rightarrow> Audio \<Rightarrow> py_value list \<Rightarrow> audio_state
     \<Rightarrow> (exn + (string \<rightharpoonup> 'arr py_obj list)) \<times> audio_state" where
  "decode_batch L self vals s = decode_batch_loop L self vals Map.empty s"

subsection \<open>Reading a trace\<close>

text \<open>The backends entered, in order.\<close>

fun invocations :: "event list \<Rightarrow> backend list" where
  "invocations [] = []"
| "invocations (Invoke b # es) = b # invocations es"
| "invocations (e # es) = invocations es"

fun is_resample :: "event \<Rightarrow> bool" where
  "is_resample (LibrosaResample a b) = True"
| "is_resample (ApplyResample a b) = True"
| "is_resample e = False"

fun is_downmix :: "event \<Rightarrow> bool" where
  "is_downmix ToMono = True"
| "is_downmix Mean = True"
| "is_downmix e = False"

text \<open>Some downmix is followed, later in the trace, by a resampling.\<close>

fun downmix_then_resample :: "event list \<Rightarrow> bool" where
  "downmix_then_resample [] = False"
| "downmix_then_resample (e # es) =
     ((is_downmix e \<and> filter is_resample es \<noteq> []) \<or> downmix_then_resample es)"

text \<open>The events a call added to the trace of the state it started from.\<close>

definition new_events :: "audio_state \<Rightarrow> 'a \<times> audio_state \<Rightarrow> event list" where
  "new_events s r = drop (length (trace s)) (trace (snd r))"

text \<open>The class of the exception a call raised, if it raised one.\<close>

definition raised :: "(exn + 'a) \<times> audio_state \<Rightarrow> string option" where
  "raised r = (case fst r of Inl err \<Rightarrow> Some (exn_class err) | Inr _ \<Rightarrow> None)"

subsection \<open>Reading a reference and a batch\<close>

text \<open>
  The path of a reference, what \<^verbatim>\<open>decode_example\<close> hands to
  \<^verbatim>\<open>torchaudio.load\<close> for it, and whether its shape is the one the
  \<^verbatim>\<open>archived\<close> flag announces.
\<close>

fun path_of :: "py_value \<Rightarrow> string" where
  "path_of (Str p) = p"
| "path_of (Dict p b) = p"

fun source_of :: "py_value \<Rightarrow> source" where
  "source_of (Str p) = FromPath p"
| "source_of (Dict p b) = FromBuffer b"

fun well_shaped :: "Audio \<Rightarrow> py_value \<Rightarrow> bool" where
  "well_shaped self (Str p) = (\<not> archived self)"
| "well_shaped self (Dict p b) = archived self"

text \<open>
  The results of \<^verbatim>\<open>decode_example\<close> on the references of a sequence, one call after
  the other on the same instance, up to the first exception.
\<close>

fun decode_each ::
  "('arr, 'tensor) libs \<Rightarrow> Audio \<Rightarrow> py_value list \<Rightarrow> audio_state
     \<Rightarrow> (exn + 'arr py_dict list) \<times> audio_state" where
  "decode_each L self [] s = (Inr [], s)"
| "decode_each L self (val # vals) s =
     (case decode_example L self val s of
        (Inl err, s') \<Rightarrow> (Inl err, s')
      | (Inr ex, s') \<Rightarrow>
          (case decode_each L self vals s' of
             (Inl err, s'') \<Rightarrow> (Inl err, s'')
           | (Inr exs, s'') \<Rightarrow> (Inr (ex # exs), s'')))"

text \<open>The value stored under a key of a returned dictionary.\<close>

fun field :: "string \<Rightarrow> 'arr py_dict \<Rightarrow> 'arr py_obj option" where
  "field k [] = None"
| "field k ((k', v) # kvs) = (if k = k' then Some v else field k kvs)"

text \<open>The column a batch holds under a key; \<open>None\<close> when the key is absent.\<close>

definition column ::
  "string \<Rightarrow> (exn + (string \<rightharpoonup> 'v list)) \<times> audio_state \<Rightarrow> 'v list option" where
  "column k r = (case fst r of Inl err \<Rightarrow> None | Inr d \<Rightarrow> d k)"

subsection \<open>A symbolic instance of the libraries\<close>

text \<open>
  To run the methods on concrete references, the libraries are instantiated by free
  terms: each array operation is a constructor, so a result shows which operations were
  applied and in which order. A file is its native rate (one byte) followed by its
  payload; the file system holds four files.
\<close>

datatype sym_tensor = Loaded bytes | Resampled "int \<times> int" sym_tensor

datatype sym_array =
    SfSamples bytes
  | LibrosaSamples bytes "int option" bool
  | T sym_array
  | ToMonoOf sym_array
  | ResampleOf sym_array int int
  | NumpyOf sym_tensor
  | MeanOf sym_array

definition sym_open :: "string \<Rightarrow> exn + bytes" where
  "sym_open p =
     (case map_of [(''a.wav'', [44, 1, 2, 3, 4]), (''b.wav'', [16, 9, 8]),
                   (''a.mp3'', [44, 1, 2, 3, 4]), (''b.mp3'', [48, 5, 6, 7, 8])] p of
        None \<Rightarrow> Inl (Exn ''FileNotFoundError'' p)
      | Some b \<Rightarrow> Inr b)"

definition sym_torchaudio_load :: "source \<Rightarrow> exn + (sym_tensor \<times> int)" where
  "sym_torchaudio_load src =
     (case (case src of FromPath p \<Rightarrow> sym_open p | FromBuffer b \<Rightarrow> Inr b) of
        Inl err \<Rightarrow> Inl err
      | Inr [] \<Rightarrow> Inl (Exn ''RuntimeError'' ''no header'')
      | Inr (r # payload) \<Rightarrow> Inr (Loaded payload, uint r))"

definition sym_libs :: "(sym_array, sym_tensor) libs" where
  "sym_libs =
     \<lparr>has_librosa = True, has_soundfile = True, has_torchaudio = True,
      has_transforms = True, has_sox_io = True,
      open_rb = sym_open,
      librosa_load = (\<lambda>f sr m.
        case f of
          [] \<Rightarrow> Inl (Exn ''RuntimeError'' ''no header'')
        | r # payload \<Rightarrow>
            Inr (LibrosaSamples payload sr m, case sr of None \<Rightarrow> uint r | Some t \<Rightarrow> t)),
      sf_read = (\<lambda>f.
        case f of
          [] \<Rightarrow> Inl (Exn ''RuntimeError'' ''no header'')
        | r # payload \<Rightarrow> Inr (SfSamples payload, uint r)),
      ndarray_T = T,
      librosa_to_mono = ToMonoOf,
      librosa_resample = ResampleOf,
      torchaudio_load = sym_torchaudio_load,
      Resample_call = Resampled,
      tensor_numpy = NumpyOf,
      ndarray_mean = MeanOf,
      str_index_msg = ''string indices must be integers, not 'str'' @ [CHR 0x27]\<rparr>"

definition audio :: "int option \<Rightarrow> bool \<Rightarrow> bool \<Rightarrow> Audio" where
  "audio sr m a = \<lparr>sampling_rate = sr, mono_flag = m, archived = a, id_field = None\<rparr>"

definition fresh :: audio_state where
  "fresh = \<lparr>resampler = None, trace = []\<rparr>"

section \<open>Facts about the model\<close>

subsection \<open>Suffixes and traces\<close>

text \<open>
  \<open>endswith\<close> is the suffix test: the characters are compared as they are, so the
  test is case-sensitive.
\<close>

lemma endswith_iff: "endswith s suf \<longleftrightarrow> (\<exists>pre. s = pre @ suf)"
proof
  assume "endswith s suf"
  then have "drop (length s - length suf) s = suf"
    by (simp add: endswith_def)
  then have "s = take (length s - length suf) s @ suf"
    by (metis append_take_drop_id)
  then show "\<exists>pre. s = pre @ suf" ..
next
  assume "\<exists>pre. s = pre @ suf"
  then show "endswith s suf"
    by (auto simp: endswith_def)
qed

lemma invocations_append: "invocations (xs @ ys) = invocations xs @ invocations ys"
  by (induction xs rule: invocations.induct) simp_all

lemma new_events_append:
  "trace (snd r) = trace s @ evs \<Longrightarrow> new_events s r = evs"
  by (simp add: new_events_def)

lemma new_events_decoded: "new_events s (decoded p r) = new_events s r"
  by (simp add: new_events_def decoded_def split: prod.splits sum.splits)

subsection \<open>The three backends, run to the end\<close>

text \<open>
  What each backend method returns, and the events it adds, once its imports and its
  loader succeed.
\<close>

lemma librosa_run:
  "decode_example_with_librosa L self p s =
     (if \<not> has_librosa L then (Inl librosa_missing, s\<lparr>trace := trace s @ [Invoke librosa]\<rparr>)
      else case open_rb L p of
        Inl err \<Rightarrow> (Inl err, s\<lparr>trace := trace s @ [Invoke librosa, Open]\<rparr>)
      | Inr f \<Rightarrow>
          (case librosa_load L f (sampling_rate self) (mono_flag self) of
             Inl err \<Rightarrow> Inl err | Inr ar \<Rightarrow> Inr ar,
           s\<lparr>trace := trace s @ [Invoke librosa, Open, LibrosaLoad]\<rparr>))"
  by (simp add: decode_example_with_librosa_def emit_def Let_def split: sum.splits prod.splits)

lemma soundfile_run:
  assumes "has_librosa L" and "has_soundfile L" and "sf_read L buf = Inr (raw, r)"
  shows "decode_example_with_soundfile L self buf s =
     (let m = (if mono_flag self then librosa_to_mono L (ndarray_T L raw) else ndarray_T L raw);
          evs = [Invoke soundfile, SfRead, Transpose] @ (if mono_flag self then [ToMono] else [])
      in case resample_target (sampling_rate self) r of
           None \<Rightarrow> (Inr (m, r), s\<lparr>trace := trace s @ evs\<rparr>)
         | Some target \<Rightarrow>
             (Inr (librosa_resample L m r target, target),
              s\<lparr>trace := trace s @ evs @ [LibrosaResample r target]\<rparr>))"
  using assms
  by (simp add: decode_example_with_soundfile_def emit_def Let_def split: option.splits)

lemma torchaudio_run:
  assumes "has_torchaudio L" and "has_transforms L" and "has_sox_io L"
    and "torchaudio_load L src = Inr (t, r)"
  shows "decode_example_with_torchaudio L self src s =
     (let pre = [Invoke torchaudio, SetAudioBackend, TorchaudioLoad];
          post = Numpy # (if mono_flag self then [Mean] else []);
          fin = (\<lambda>x. if mono_flag self then ndarray_mean L (tensor_numpy L x) else tensor_numpy L x)
      in case resample_target (sampling_rate self) r of
           None \<Rightarrow> (Inr (fin t, r), s\<lparr>trace := trace s @ pre @ post\<rparr>)
         | Some target \<Rightarrow>
             (case resampler s of
                None \<Rightarrow>
                  (Inr (fin (Resample_call L (r, target) t), target),
                   s\<lparr>resampler := Some (r, target),
                     trace := trace s @ pre @ [NewResample r target, ApplyResample r target] @ post\<rparr>)
              | Some c \<Rightarrow>
                  (Inr (fin (Resample_call L c t), target),
                   s\<lparr>trace := trace s @ pre @ [ApplyResample (fst c) (snd c)] @ post\<rparr>)))"
  using assms
  by (simp add: decode_example_with_torchaudio_def emit_def Let_def split: option.splits)

lemma torchaudio_unavailable:
  "\<not> (has_torchaudio L \<and> has_transforms L) \<Longrightarrow>
     decode_example_with_torchaudio L self src s =
       (Inl torchaudio_missing, s\<lparr>trace := trace s @ [Invoke torchaudio]\<rparr>)"
  "has_torchaudio L \<Longrightarrow> has_transforms L \<Longrightarrow> \<not> has_sox_io L \<Longrightarrow>
     decode_example_with_torchaudio L self src s =
       (Inl sox_missing, s\<lparr>trace := trace s @ [Invoke torchaudio, SetAudioBackend]\<rparr>)"
  by (simp_all add: decode_example_with_torchaudio_def emit_def)

lemma invoke_torchaudio:
  "invocations (new_events s (decode_example_with_torchaudio L self src s)) = [torchaudio]"
  by (simp add: decode_example_with_torchaudio_def emit_def Let_def new_events_def
      split: sum.splits option.splits prod.splits)

lemma invoke_soundfile:
  "invocations (new_events s (decode_example_with_soundfile L self buf s)) = [soundfile]"
  by (simp add: decode_example_with_soundfile_def emit_def Let_def new_events_def
      split: sum.splits option.splits prod.splits)

lemma invoke_librosa:
  "invocations (new_events s (decode_example_with_librosa L self p s)) = [librosa]"
  by (simp add: decode_example_with_librosa_def emit_def Let_def new_events_def
      split: sum.splits option.splits prod.splits)

subsection \<open>The dispatch\<close>

lemma decode_example_mp3:
  assumes "well_shaped self val" and "endswith (path_of val) ''.mp3''"
  shows "decode_example L self val s =
           decoded (path_of val) (decode_example_with_torchaudio L self (source_of val) s)"
  using assms by (cases val) (simp_all add: decode_example_def)

lemma decode_example_soundfile:
  assumes "archived self" and "\<not> endswith path ''.mp3''"
  shows "decode_example L self (Dict path buf) s =
           decoded path (decode_example_with_soundfile L self buf s)"
  using assms by (simp add: decode_example_def)

lemma decode_example_librosa:
  assumes "\<not> archived self" and "\<not> endswith path ''.mp3''"
  shows "decode_example L self (Str path) s =
           decoded path (decode_example_with_librosa L self path s)"
  using assms by (simp add: decode_example_def)

lemma decode_example_shape:
  assumes "decode_example L self val s = (Inr ex, s')"
  shows "\<exists>a r. ex = [(''path'', PStr (path_of val)), (''array'', PArr a), (''sampling_rate'', PInt r)]"
  using assms
  by (cases val)
     (auto simp: decode_example_def decoded_def split: if_splits prod.splits sum.splits)

subsection \<open>The batch loop\<close>

lemma decode_each_shape:
  "decode_each L self vals s = (Inr exs, s') \<Longrightarrow>
     list_all2 (\<lambda>val ex. \<exists>a r. ex = [(''path'', PStr (path_of val)), (''array'', PArr a),
                                     (''sampling_rate'', PInt r)]) vals exs"
proof (induction vals arbitrary: s exs)
  case Nil
  then show ?case by simp
next
  case (Cons val vals)
  from Cons.prems obtain ex s1 rest where
    one: "decode_example L self val s = (Inr ex, s1)" and
    more: "decode_each L self vals s1 = (Inr rest, s')" and
    exs: "exs = ex # rest"
    by (auto split: prod.splits sum.splits)
  from decode_example_shape [OF one] Cons.IH [OF more] exs show ?case
    by simp
qed

lemma decode_batch_loop_each:
  "decode_batch_loop L self vals acc s =
     (case decode_each L self vals s of
        (Inl err, s') \<Rightarrow> (Inl err, s')
      | (Inr exs, s') \<Rightarrow> (Inr (foldl add_example acc exs), s'))"
  by (induction vals arbitrary: acc s) (simp_all split: prod.splits sum.splits)

lemma decode_batch_fails_fast:
  "decode_each L self vals s = (Inl err, s') \<Longrightarrow> decode_batch L self vals s = (Inl err, s')"
  by (simp add: decode_batch_def decode_batch_loop_each)

lemma append_sections:
  "(@) ([] :: 'a list) = (\<lambda>ys. ys)"
  "(@) [x] = (#) x"
  "(@) (xs @ [x]) = (\<lambda>ys. xs @ x # ys)"
  by (simp_all add: fun_eq_iff)

lemma add_example_triple:
  "add_example acc [(''path'', p), (''array'', a), (''sampling_rate'', r)] k =
   (if k = ''path'' then Some ((case acc k of None \<Rightarrow> [] | Some vs \<Rightarrow> vs) @ [p])
    else if k = ''array'' then Some ((case acc k of None \<Rightarrow> [] | Some vs \<Rightarrow> vs) @ [a])
    else if k = ''sampling_rate'' then Some ((case acc k of None \<Rightarrow> [] | Some vs \<Rightarrow> vs) @ [r])
    else acc k)"
  by (simp add: add_example_def append_item_def)

lemma columns_of_triples:
  assumes "list_all2 (\<lambda>val ex. \<exists>a r. ex = [(''path'', PStr (path_of val)), (''array'', PArr a),
                                     (''sampling_rate'', PInt r)]) vals exs"
  shows "foldl add_example acc exs k =
     (if exs = [] \<or> k \<notin> {''path'', ''array'', ''sampling_rate''} then acc k
      else map_option (\<lambda>xs. (case acc k of None \<Rightarrow> [] | Some vs \<Rightarrow> vs) @ xs)
             (those (map (field k) exs)))"
  using assms
proof (induction vals exs arbitrary: acc rule: list_all2_induct)
  case Nil
  then show ?case by simp
next
  case (Cons val vals ex exs)
  from Cons.hyps(1) obtain a r where
    ex: "ex = [(''path'', PStr (path_of val)), (''array'', PArr a), (''sampling_rate'', PInt r)]"
    by blast
  have "foldl add_example acc (ex # exs) k = foldl add_example (add_example acc ex) exs k"
    by simp
  also have "\<dots> =
     (if exs = [] \<or> k \<notin> {''path'', ''array'', ''sampling_rate''} then add_example acc ex k
      else map_option (\<lambda>xs. (case add_example acc ex k of None \<Rightarrow> [] | Some vs \<Rightarrow> vs) @ xs)
             (those (map (field k) exs)))"
    by (rule Cons.IH)
  also have "\<dots> =
     (if k \<notin> {''path'', ''array'', ''sampling_rate''} then acc k
      else map_option (\<lambda>xs. (case acc k of None \<Rightarrow> [] | Some vs \<Rightarrow> vs) @ xs)
             (those (map (field k) (ex # exs))))"
    unfolding ex add_example_triple
    by (cases "exs = []")
      (auto simp: option.map_comp comp_def append_sections split: option.splits)
  finally show ?case by simp
qed

lemma path_column:
  assumes "list_all2 (\<lambda>val ex. \<exists>a r. ex = [(''path'', PStr (path_of val)), (''array'', PArr a),
                                     (''sampling_rate'', PInt r)]) vals exs"
  shows "those (map (field ''path'') exs) = Some (map (\<lambda>val. PStr (path_of val)) vals)"
  using assms by (induction vals exs rule: list_all2_induct) auto

subsection \<open>Evaluation on the symbolic libraries\<close>

lemmas sym_eval =
  decode_example_def decoded_def endswith_def audio_def fresh_def sym_libs_def
  sym_torchaudio_load_def sym_open_def decode_example_with_torchaudio_def
  decode_example_with_soundfile_def decode_example_with_librosa_def emit_def
  resample_target_def new_events_def

section \<open>The storage schema\<close>

text \<open>
  C8. The schema is a function of the \<^verbatim>\<open>archived\<close> flag alone: a single string
  field without it, the record of a string field \<^verbatim>\<open>path\<close> and a binary field
  \<^verbatim>\<open>bytes\<close> with it.
\<close>

theorem Audio_call_schema:
  "Audio_call (self\<lparr>archived := False\<rparr>) = pa_string \<and>
   Audio_call (self\<lparr>archived := True\<rparr>) =
     pa_struct [(''path'', pa_string), (''bytes'', pa_binary)] \<and>
   Audio_call self =
     Audio_call \<lparr>sampling_rate = None, mono_flag = True, archived = archived self,
                 id_field = None\<rparr>"
  by (simp add: Audio_call_def)

section \<open>Routing by suffix\<close>

text \<open>
  C1. A reference whose path ends with \<^verbatim>\<open>.mp3\<close> enters the torchaudio backend,
  and no other, in both storage modes; any other path enters the soundfile backend when
  \<^verbatim>\<open>archived\<close> is set and the librosa backend when it is not. The torchaudio backend
  is given the buffer in the first mode and the path in the second.
\<close>

theorem decode_example_routing:
  "invocations (new_events s (decode_example L (self\<lparr>archived := True\<rparr>) (Dict path buf) s)) =
     [if endswith path ''.mp3'' then torchaudio else soundfile] \<and>
   invocations (new_events s (decode_example L (self\<lparr>archived := False\<rparr>) (Str path) s)) =
     [if endswith path ''.mp3'' then torchaudio else librosa] \<and>
   decode_example L (self\<lparr>archived := True\<rparr>) (Dict path buf) s =
     decoded path
       (if endswith path ''.mp3''
        then decode_example_with_torchaudio L (self\<lparr>archived := True\<rparr>) (FromBuffer buf) s
        else decode_example_with_soundfile L (self\<lparr>archived := True\<rparr>) buf s) \<and>
   decode_example L (self\<lparr>archived := False\<rparr>) (Str path) s =
     decoded path
       (if endswith path ''.mp3''
        then decode_example_with_torchaudio L (self\<lparr>archived := False\<rparr>) (FromPath path) s
        else decode_example_with_librosa L (self\<lparr>archived := False\<rparr>) path s) \<and>
   endswith path ''.mp3'' = (\<exists>stem. path = stem @ ''.mp3'') \<and>
   \<not> endswith ''A.MP3'' ''.mp3''"
proof -
  have "\<not> endswith ''A.MP3'' ''.mp3''"
    by (simp add: endswith_def)
  then show ?thesis
    by (simp add: decode_example_def new_events_decoded invoke_torchaudio invoke_soundfile
        invoke_librosa endswith_iff)
qed

section \<open>References of the wrong shape\<close>

text \<open>
  C4, as the code has it. A reference whose shape does not match the \<^verbatim>\<open>archived\<close>
  flag makes \<^verbatim>\<open>decode_example\<close> fail before any backend is entered and with the
  state untouched, but with the exception of the failing Python operation: a
  \<^verbatim>\<open>dict\<close> without \<^verbatim>\<open>archived\<close> raises \<^verbatim>\<open>AttributeError\<close> (it has no
  \<^verbatim>\<open>endswith\<close>), a \<^verbatim>\<open>str\<close> with \<^verbatim>\<open>archived\<close> raises \<^verbatim>\<open>TypeError\<close>
  (it is indexed by \<^verbatim>\<open>"path"\<close>).
\<close>

theorem mismatched_shape_raises:
  "raised (decode_example L (self\<lparr>archived := False\<rparr>) (Dict path buf) s) =
     Some ''AttributeError'' \<and>
   snd (decode_example L (self\<lparr>archived := False\<rparr>) (Dict path buf) s) = s \<and>
   new_events s (decode_example L (self\<lparr>archived := False\<rparr>) (Dict path buf) s) = [] \<and>
   raised (decode_example L (self\<lparr>archived := True\<rparr>) (Str path) s) = Some ''TypeError'' \<and>
   snd (decode_example L (self\<lparr>archived := True\<rparr>) (Str path) s) = s \<and>
   new_events s (decode_example L (self\<lparr>archived := True\<rparr>) (Str path) s) = []"
  by (simp add: decode_example_def dict_endswith_error_def str_index_error_def new_events_def
      raised_def)

text \<open>
  C4, as stated, fails: on the symbolic libraries the class of the exception is
  \<^verbatim>\<open>AttributeError\<close>, respectively \<^verbatim>\<open>TypeError\<close>, and not
  \<^verbatim>\<open>MalformedReference\<close>.
\<close>

theorem mismatched_shape_not_MalformedReference:
  "raised (decode_example sym_libs (audio None True False) (Dict ''a.wav'' [44, 1, 2, 3, 4]) fresh)
     = Some ''AttributeError'' \<and>
   raised (decode_example sym_libs (audio None True False) (Dict ''a.wav'' [44, 1, 2, 3, 4]) fresh)
     \<noteq> Some ''MalformedReference'' \<and>
   raised (decode_example sym_libs (audio None True True) (Str ''a.wav'') fresh)
     = Some ''TypeError'' \<and>
   raised (decode_example sym_libs (audio None True True) (Str ''a.wav'') fresh)
     \<noteq> Some ''MalformedReference''"
  by (simp add: decode_example_def dict_endswith_error_def str_index_error_def raised_def audio_def)

section \<open>The cached resampler\<close>

text \<open>
  The attribute \<^verbatim>\<open>_resampler\<close> is created by the first call that resamples and is
  never replaced: once it is set, every later call applies it, whatever the native rate of
  the file at hand.
\<close>

lemma cached_resampler_reused:
  assumes "has_torchaudio L" and "has_transforms L" and "has_sox_io L"
    and "torchaudio_load L src = Inr (t, native)"
    and "sampling_rate self = Some target" and "target \<noteq> 0" and "target \<noteq> native"
    and "resampler s = Some c"
  shows "fst (decode_example_with_torchaudio L self src s) =
           Inr (if mono_flag self then ndarray_mean L (tensor_numpy L (Resample_call L c t))
                else tensor_numpy L (Resample_call L c t), target)"
  using assms by (simp add: torchaudio_run resample_target_def Let_def)

text \<open>
  C2 fails on the code. With a target rate of 16, decoding \<^verbatim>\<open>a.mp3\<close> (native rate
  44) and then \<^verbatim>\<open>b.mp3\<close> (native rate 48) on the same instance resamples the second
  file with the object built for the pair (44, 16), and labels the result with the rate
  16; on an instance that has decoded nothing before, the same file is resampled with the
  object for (48, 16).
\<close>

theorem stale_resampler_second_call:
  "fst (decode_example sym_libs (audio (Some 16) True False) (Str ''b.mp3'')
         (snd (decode_example sym_libs (audio (Some 16) True False) (Str ''a.mp3'') fresh))) =
     Inr [(''path'', PStr ''b.mp3''),
          (''array'', PArr (MeanOf (NumpyOf (Resampled (44, 16) (Loaded [5, 6, 7, 8]))))),
          (''sampling_rate'', PInt 16)] \<and>
   fst (decode_example sym_libs (audio (Some 16) True False) (Str ''b.mp3'') fresh) =
     Inr [(''path'', PStr ''b.mp3''),
          (''array'', PArr (MeanOf (NumpyOf (Resampled (48, 16) (Loaded [5, 6, 7, 8]))))),
          (''sampling_rate'', PInt 16)]"
  by (simp add: decode_example_def decoded_def endswith_def audio_def fresh_def sym_libs_def
      sym_torchaudio_load_def sym_open_def decode_example_with_torchaudio_def emit_def
      resample_target_def)

section \<open>Downmix and resampling\<close>

text \<open>
  C3, as the code has it. With \<^verbatim>\<open>mono\<close> set: the torchaudio backend resamples
  first and takes the mean over the channels last, so its result is the channel mean of
  the resampled signal; the soundfile backend applies \<^verbatim>\<open>librosa.to_mono\<close> to the
  transposed signal first and resamples the downmix afterwards; the librosa backend hands
  \<^verbatim>\<open>mono=True\<close> to \<^verbatim>\<open>librosa.load\<close> and applies no step of its own.
\<close>

theorem mono_downmix_order:
  assumes "mono_flag self"
  shows
    "(well_shaped self val \<and> endswith (path_of val) ''.mp3'' \<and>
      has_torchaudio L \<and> has_transforms L \<and> has_sox_io L \<and>
      torchaudio_load L (source_of val) = Inr (t, r) \<longrightarrow>
        fst (decode_example L self val s) =
          Inr [(''path'', PStr (path_of val)),
               (''array'', PArr (ndarray_mean L (tensor_numpy L
                  (case resample_target (sampling_rate self) r of
                     None \<Rightarrow> t
                   | Some target \<Rightarrow>
                       Resample_call L (case resampler s of None \<Rightarrow> (r, target) | Some c \<Rightarrow> c) t)))),
               (''sampling_rate'', PInt
                  (case resample_target (sampling_rate self) r of None \<Rightarrow> r | Some target \<Rightarrow> target))] \<and>
        \<not> downmix_then_resample (new_events s (decode_example L self val s)) \<and>
        last (new_events s (decode_example L self val s)) = Mean) \<and>
     (archived self \<and> \<not> endswith path ''.mp3'' \<and> has_librosa L \<and> has_soundfile L \<and>
      sf_read L buf = Inr (raw, r) \<longrightarrow>
        decode_example L self (Dict path buf) s =
          (case resample_target (sampling_rate self) r of
             None \<Rightarrow>
               (Inr [(''path'', PStr path),
                     (''array'', PArr (librosa_to_mono L (ndarray_T L raw))),
                     (''sampling_rate'', PInt r)],
                s\<lparr>trace := trace s @ [Invoke soundfile, SfRead, Transpose, ToMono]\<rparr>)
           | Some target \<Rightarrow>
               (Inr [(''path'', PStr path),
                     (''array'', PArr (librosa_resample L (librosa_to_mono L (ndarray_T L raw)) r target)),
                     (''sampling_rate'', PInt target)],
                s\<lparr>trace := trace s @ [Invoke soundfile, SfRead, Transpose, ToMono,
                                       LibrosaResample r target]\<rparr>))) \<and>
     (\<not> archived self \<and> \<not> endswith path ''.mp3'' \<and> has_librosa L \<and> open_rb L path = Inr f \<and>
      librosa_load L f (sampling_rate self) True = Inr (a, r) \<longrightarrow>
        decode_example L self (Str path) s =
          (Inr [(''path'', PStr path), (''array'', PArr a), (''sampling_rate'', PInt r)],
           s\<lparr>trace := trace s @ [Invoke librosa, Open, LibrosaLoad]\<rparr>))"
proof (intro conjI impI)
  assume h: "well_shaped self val \<and> endswith (path_of val) ''.mp3'' \<and>
      has_torchaudio L \<and> has_transforms L \<and> has_sox_io L \<and>
      torchaudio_load L (source_of val) = Inr (t, r)"
  then have run: "decode_example L self val s =
      decoded (path_of val) (decode_example_with_torchaudio L self (source_of val) s)"
    by (simp add: decode_example_mp3)
  from h have ta: "has_torchaudio L" "has_transforms L" "has_sox_io L"
    "torchaudio_load L (source_of val) = Inr (t, r)" by simp_all
  show "fst (decode_example L self val s) =
          Inr [(''path'', PStr (path_of val)),
               (''array'', PArr (ndarray_mean L (tensor_numpy L
                  (case resample_target (sampling_rate self) r of
                     None \<Rightarrow> t
                   | Some target \<Rightarrow>
                       Resample_call L (case resampler s of None \<Rightarrow> (r, target) | Some c \<Rightarrow> c) t)))),
               (''sampling_rate'', PInt
                  (case resample_target (sampling_rate self) r of None \<Rightarrow> r | Some target \<Rightarrow> target))]"
    using assms by (simp add: run torchaudio_run [OF ta] decoded_def Let_def split: option.splits)
  show "\<not> downmix_then_resample (new_events s (decode_example L self val s))"
    using assms
    by (simp add: run torchaudio_run [OF ta] decoded_def new_events_def Let_def split: option.splits)
  show "last (new_events s (decode_example L self val s)) = Mean"
    using assms
    by (simp add: run torchaudio_run [OF ta] decoded_def new_events_def Let_def split: option.splits)
next
  assume h: "archived self \<and> \<not> endswith path ''.mp3'' \<and> has_librosa L \<and> has_soundfile L \<and>
      sf_read L buf = Inr (raw, r)"
  then have sf: "has_librosa L" "has_soundfile L" "sf_read L buf = Inr (raw, r)" by simp_all
  from h show "decode_example L self (Dict path buf) s =
          (case resample_target (sampling_rate self) r of
             None \<Rightarrow>
               (Inr [(''path'', PStr path),
                     (''array'', PArr (librosa_to_mono L (ndarray_T L raw))),
                     (''sampling_rate'', PInt r)],
                s\<lparr>trace := trace s @ [Invoke soundfile, SfRead, Transpose, ToMono]\<rparr>)
           | Some target \<Rightarrow>
               (Inr [(''path'', PStr path),
                     (''array'', PArr (librosa_resample L (librosa_to_mono L (ndarray_T L raw)) r target)),
                     (''sampling_rate'', PInt target)],
                s\<lparr>trace := trace s @ [Invoke soundfile, SfRead, Transpose, ToMono,
                                       LibrosaResample r target]\<rparr>))"
    using assms
    by (simp add: decode_example_soundfile soundfile_run [OF sf] decoded_def Let_def split: option.splits)
next
  assume h: "\<not> archived self \<and> \<not> endswith path ''.mp3'' \<and> has_librosa L \<and> open_rb L path = Inr f \<and>
      librosa_load L f (sampling_rate self) True = Inr (a, r)"
  then show "decode_example L self (Str path) s =
          (Inr [(''path'', PStr path), (''array'', PArr a), (''sampling_rate'', PInt r)],
           s\<lparr>trace := trace s @ [Invoke librosa, Open, LibrosaLoad]\<rparr>)"
    using assms by (simp add: decode_example_librosa librosa_run decoded_def)
qed

theorem mono_downmix_order_witness:
  "mono_flag (audio (Some 16) True False) \<and> mono_flag (audio (Some 16) True True) \<and>
   fst (decode_example sym_libs (audio (Some 16) True False) (Str ''b.mp3'') fresh) =
     Inr [(''path'', PStr ''b.mp3''),
          (''array'', PArr (MeanOf (NumpyOf (Resampled (48, 16) (Loaded [5, 6, 7, 8]))))),
          (''sampling_rate'', PInt 16)] \<and>
   \<not> downmix_then_resample
       (new_events fresh (decode_example sym_libs (audio (Some 16) True False) (Str ''b.mp3'') fresh)) \<and>
   decode_example sym_libs (audio (Some 16) True True) (Dict ''b.wav'' [16, 9, 8]) fresh =
     (Inr [(''path'', PStr ''b.wav''),
           (''array'', PArr (ToMonoOf (T (SfSamples [9, 8])))),
           (''sampling_rate'', PInt 16)],
      \<lparr>resampler = None, trace = [Invoke soundfile, SfRead, Transpose, ToMono]\<rparr>) \<and>
   decode_example sym_libs (audio (Some 16) True False) (Str ''a.wav'') fresh =
     (Inr [(''path'', PStr ''a.wav''),
           (''array'', PArr (LibrosaSamples [1, 2, 3, 4] (Some 16) True)),
           (''sampling_rate'', PInt 16)],
      \<lparr>resampler = None, trace = [Invoke librosa, Open, LibrosaLoad]\<rparr>)"
proof -
  have m1: "mono_flag (audio (Some 16) True False)" and m2: "mono_flag (audio (Some 16) True True)"
    by (simp_all add: audio_def)
  note mp3 = mono_downmix_order [OF m1, where val = "Str ''b.mp3''" and L = sym_libs
      and t = "Loaded [5, 6, 7, 8]" and r = 48 and s = fresh, THEN conjunct1]
  note wav = mono_downmix_order [OF m2, where path = "''b.wav''" and buf = "[16, 9, 8]"
      and L = sym_libs and raw = "SfSamples [9, 8]" and r = 16 and s = fresh,
      THEN conjunct2, THEN conjunct1]
  note lib = mono_downmix_order [OF m1, where path = "''a.wav''" and f = "[44, 1, 2, 3, 4]"
      and L = sym_libs and a = "LibrosaSamples [1, 2, 3, 4] (Some 16) True" and r = 16
      and s = fresh, THEN conjunct2, THEN conjunct2]
  have a: "fst (decode_example sym_libs (audio (Some 16) True False) (Str ''b.mp3'') fresh) =
     Inr [(''path'', PStr ''b.mp3''),
          (''array'', PArr (MeanOf (NumpyOf (Resampled (48, 16) (Loaded [5, 6, 7, 8]))))),
          (''sampling_rate'', PInt 16)] \<and>
   \<not> downmix_then_resample
       (new_events fresh (decode_example sym_libs (audio (Some 16) True False) (Str ''b.mp3'') fresh))"
    using mp3 by (simp add: sym_eval)
  have b: "decode_example sym_libs (audio (Some 16) True True) (Dict ''b.wav'' [16, 9, 8]) fresh =
     (Inr [(''path'', PStr ''b.wav''),
           (''array'', PArr (ToMonoOf (T (SfSamples [9, 8])))),
           (''sampling_rate'', PInt 16)],
      \<lparr>resampler = None, trace = [Invoke soundfile, SfRead, Transpose, ToMono]\<rparr>)"
    using wav by (simp add: sym_eval)
  have c: "decode_example sym_libs (audio (Some 16) True False) (Str ''a.wav'') fresh =
     (Inr [(''path'', PStr ''a.wav''),
           (''array'', PArr (LibrosaSamples [1, 2, 3, 4] (Some 16) True)),
           (''sampling_rate'', PInt 16)],
      \<lparr>resampler = None, trace = [Invoke librosa, Open, LibrosaLoad]\<rparr>)"
    using lib by (simp add: sym_eval)
  from m1 m2 a b c show ?thesis by simp
qed

text \<open>
  C3, as stated, fails in the soundfile backend: for an archived reference with a target
  rate that differs from the native one, the downmix comes before the resampling, and the
  result is the resampled downmix.
\<close>

theorem soundfile_downmix_before_resample:
  "downmix_then_resample
     (new_events fresh
        (decode_example sym_libs (audio (Some 16) True True) (Dict ''a.wav'' [44, 1, 2, 3, 4]) fresh)) \<and>
   fst (decode_example sym_libs (audio (Some 16) True True) (Dict ''a.wav'' [44, 1, 2, 3, 4]) fresh) =
     Inr [(''path'', PStr ''a.wav''),
          (''array'', PArr (ResampleOf (ToMonoOf (T (SfSamples [1, 2, 3, 4]))) 44 16)),
          (''sampling_rate'', PInt 16)]"
  by (simp add: decode_example_def decoded_def endswith_def audio_def fresh_def sym_libs_def
      decode_example_with_soundfile_def emit_def resample_target_def new_events_def)

section \<open>A target rate equal to the native rate\<close>

text \<open>
  C5. When the target rate is the native rate of the file (or is unset, or is 0, which
  Python takes for unset), the soundfile and the torchaudio backends call no resampler:
  the returned rate is the native rate, the samples are the decoded ones (transposed and
  downmixed as configured), and \<^verbatim>\<open>_resampler\<close> is left as it was. The librosa backend
  hands the target rate to \<^verbatim>\<open>librosa.load\<close> and returns the samples and the rate
  that \<^verbatim>\<open>librosa.load\<close> returns, as they are: when that rate is the native rate, so
  is the rate of the result, and no step of the code touches the samples. It never calls
  a resampler of its own.
\<close>

theorem no_resample_at_native_rate:
  assumes "sampling_rate self = None \<or> sampling_rate self = Some 0 \<or> sampling_rate self = Some r"
  shows
    "(archived self \<and> \<not> endswith path ''.mp3'' \<and> has_librosa L \<and> has_soundfile L \<and>
      sf_read L buf = Inr (raw, r) \<longrightarrow>
        fst (decode_example L self (Dict path buf) s) =
          Inr [(''path'', PStr path),
               (''array'', PArr (if mono_flag self then librosa_to_mono L (ndarray_T L raw)
                                 else ndarray_T L raw)),
               (''sampling_rate'', PInt r)] \<and>
        filter is_resample (new_events s (decode_example L self (Dict path buf) s)) = []) \<and>
     (well_shaped self val \<and> endswith (path_of val) ''.mp3'' \<and>
      has_torchaudio L \<and> has_transforms L \<and> has_sox_io L \<and>
      torchaudio_load L (source_of val) = Inr (t, r) \<longrightarrow>
        fst (decode_example L self val s) =
          Inr [(''path'', PStr (path_of val)),
               (''array'', PArr (if mono_flag self then ndarray_mean L (tensor_numpy L t)
                                 else tensor_numpy L t)),
               (''sampling_rate'', PInt r)] \<and>
        filter is_resample (new_events s (decode_example L self val s)) = [] \<and>
        resampler (snd (decode_example L self val s)) = resampler s) \<and>
     (\<not> archived self \<and> \<not> endswith path ''.mp3'' \<and> has_librosa L \<and>
      open_rb L path = Inr f \<and>
      librosa_load L f (sampling_rate self) (mono_flag self) = Inr (a, r) \<longrightarrow>
        decode_example L self (Str path) s =
          (Inr [(''path'', PStr path), (''array'', PArr a), (''sampling_rate'', PInt r)],
           s\<lparr>trace := trace s @ [Invoke librosa, Open, LibrosaLoad]\<rparr>)) \<and>
     (\<not> archived self \<and> \<not> endswith path ''.mp3'' \<longrightarrow>
        filter is_resample (new_events s (decode_example L self (Str path) s)) = [])"
proof -
  from assms have none: "resample_target (sampling_rate self) r = None"
    by (auto simp: resample_target_def)
  show ?thesis
  proof (intro conjI impI)
    assume h: "archived self \<and> \<not> endswith path ''.mp3'' \<and> has_librosa L \<and> has_soundfile L \<and>
      sf_read L buf = Inr (raw, r)"
    then have sf: "has_librosa L" "has_soundfile L" "sf_read L buf = Inr (raw, r)"
      by simp_all
    from h have run: "decode_example L self (Dict path buf) s =
        decoded path (decode_example_with_soundfile L self buf s)"
      by (simp add: decode_example_soundfile)
    show "fst (decode_example L self (Dict path buf) s) =
          Inr [(''path'', PStr path),
               (''array'', PArr (if mono_flag self then librosa_to_mono L (ndarray_T L raw)
                                 else ndarray_T L raw)),
               (''sampling_rate'', PInt r)]"
      by (simp add: run soundfile_run [OF sf] none decoded_def Let_def)
    show "filter is_resample (new_events s (decode_example L self (Dict path buf) s)) = []"
      by (simp add: run soundfile_run [OF sf] none decoded_def Let_def new_events_def)
  next
    assume h: "well_shaped self val \<and> endswith (path_of val) ''.mp3'' \<and>
      has_torchaudio L \<and> has_transforms L \<and> has_sox_io L \<and>
      torchaudio_load L (source_of val) = Inr (t, r)"
    then have ta: "has_torchaudio L" "has_transforms L" "has_sox_io L"
      "torchaudio_load L (source_of val) = Inr (t, r)"
      by simp_all
    from h have run: "decode_example L self val s =
        decoded (path_of val) (decode_example_with_torchaudio L self (source_of val) s)"
      by (simp add: decode_example_mp3)
    show "fst (decode_example L self val s) =
          Inr [(''path'', PStr (path_of val)),
               (''array'', PArr (if mono_flag self then ndarray_mean L (tensor_numpy L t)
                                 else tensor_numpy L t)),
               (''sampling_rate'', PInt r)]"
      by (simp add: run torchaudio_run [OF ta] none decoded_def Let_def)
    show "filter is_resample (new_events s (decode_example L self val s)) = []"
      by (simp add: run torchaudio_run [OF ta] none decoded_def Let_def new_events_def)
    show "resampler (snd (decode_example L self val s)) = resampler s"
      by (simp add: run torchaudio_run [OF ta] none decoded_def Let_def)
  next
    assume "\<not> archived self \<and> \<not> endswith path ''.mp3'' \<and> has_librosa L \<and>
      open_rb L path = Inr f \<and>
      librosa_load L f (sampling_rate self) (mono_flag self) = Inr (a, r)"
    then show "decode_example L self (Str path) s =
          (Inr [(''path'', PStr path), (''array'', PArr a), (''sampling_rate'', PInt r)],
           s\<lparr>trace := trace s @ [Invoke librosa, Open, LibrosaLoad]\<rparr>)"
      by (simp add: decode_example_librosa librosa_run decoded_def)
  next
    assume "\<not> archived self \<and> \<not> endswith path ''.mp3''"
    then show "filter is_resample (new_events s (decode_example L self (Str path) s)) = []"
      by (simp add: decode_example_librosa librosa_run decoded_def new_events_def
          split: sum.splits)
  qed
qed

theorem no_resample_at_native_rate_witness:
  "sampling_rate (audio (Some 44) True True) = Some 44 \<and>
   fst (decode_example sym_libs (audio (Some 44) True True) (Dict ''a.wav'' [44, 1, 2, 3, 4]) fresh) =
     Inr [(''path'', PStr ''a.wav''),
          (''array'', PArr (ToMonoOf (T (SfSamples [1, 2, 3, 4])))),
          (''sampling_rate'', PInt 44)] \<and>
   fst (decode_example sym_libs (audio (Some 44) True True) (Dict ''a.mp3'' [44, 1, 2, 3, 4]) fresh) =
     Inr [(''path'', PStr ''a.mp3''),
          (''array'', PArr (MeanOf (NumpyOf (Loaded [1, 2, 3, 4])))),
          (''sampling_rate'', PInt 44)] \<and>
   resampler (snd (decode_example sym_libs (audio (Some 44) True True)
                     (Dict ''a.mp3'' [44, 1, 2, 3, 4]) fresh)) = None \<and>
   decode_example sym_libs (audio (Some 44) True False) (Str ''a.wav'') fresh =
     (Inr [(''path'', PStr ''a.wav''),
           (''array'', PArr (LibrosaSamples [1, 2, 3, 4] (Some 44) True)),
           (''sampling_rate'', PInt 44)],
      \<lparr>resampler = None, trace = [Invoke librosa, Open, LibrosaLoad]\<rparr>) \<and>
   filter is_resample
     (new_events fresh (decode_example sym_libs (audio (Some 44) True False) (Str ''a.wav'') fresh)) = []"
proof -
  have eq: "sampling_rate (audio (Some 44) True True) = None \<or>
            sampling_rate (audio (Some 44) True True) = Some 0 \<or>
            sampling_rate (audio (Some 44) True True) = Some 44"
    by (simp add: audio_def)
  note th = no_resample_at_native_rate [OF eq, where path = "''a.wav''"
      and buf = "[44, 1, 2, 3, 4]" and L = sym_libs and raw = "SfSamples [1, 2, 3, 4]"
      and val = "Dict ''a.mp3'' [44, 1, 2, 3, 4]" and t = "Loaded [1, 2, 3, 4]" and s = fresh]
  have eq': "sampling_rate (audio (Some 44) True False) = None \<or>
             sampling_rate (audio (Some 44) True False) = Some 0 \<or>
             sampling_rate (audio (Some 44) True False) = Some 44"
    by (simp add: audio_def)
  note th' = no_resample_at_native_rate [OF eq', where path = "''a.wav''" and L = sym_libs
      and f = "[44, 1, 2, 3, 4]" and a = "LibrosaSamples [1, 2, 3, 4] (Some 44) True"
      and s = fresh, THEN conjunct2, THEN conjunct2]
  have "decode_example sym_libs (audio (Some 44) True False) (Str ''a.wav'') fresh =
     (Inr [(''path'', PStr ''a.wav''),
           (''array'', PArr (LibrosaSamples [1, 2, 3, 4] (Some 44) True)),
           (''sampling_rate'', PInt 44)],
      \<lparr>resampler = None, trace = [Invoke librosa, Open, LibrosaLoad]\<rparr>) \<and>
   filter is_resample
     (new_events fresh (decode_example sym_libs (audio (Some 44) True False) (Str ''a.wav'') fresh)) = []"
    using th' by (simp add: audio_def endswith_def sym_libs_def sym_open_def fresh_def
        new_events_def)
  moreover have
    "fst (decode_example sym_libs (audio (Some 44) True True) (Dict ''a.wav'' [44, 1, 2, 3, 4]) fresh) =
       Inr [(''path'', PStr ''a.wav''),
            (''array'', PArr (ToMonoOf (T (SfSamples [1, 2, 3, 4])))),
            (''sampling_rate'', PInt 44)] \<and>
     fst (decode_example sym_libs (audio (Some 44) True True) (Dict ''a.mp3'' [44, 1, 2, 3, 4]) fresh) =
       Inr [(''path'', PStr ''a.mp3''),
            (''array'', PArr (MeanOf (NumpyOf (Loaded [1, 2, 3, 4])))),
            (''sampling_rate'', PInt 44)] \<and>
     resampler (snd (decode_example sym_libs (audio (Some 44) True True)
                       (Dict ''a.mp3'' [44, 1, 2, 3, 4]) fresh)) = None"
    using th by (simp add: sym_eval)
  moreover have "sampling_rate (audio (Some 44) True True) = Some 44"
    by (simp add: audio_def)
  ultimately show ?thesis
    by (simp add: new_events_def fresh_def)
qed

section \<open>The transposition in the soundfile backend\<close>

text \<open>
  C9. For an archived reference that is not an mp3 file, what \<^verbatim>\<open>sf.read\<close> returned
  is transposed at once: the transposition is the first step after the read, and the
  downmix and the resampling, where they apply, are given the transposed array.
\<close>

theorem soundfile_transposed_first:
  assumes "archived self" and "\<not> endswith path ''.mp3''"
    and "has_librosa L" and "has_soundfile L" and "sf_read L buf = Inr (raw, r)"
  shows "decode_example L self (Dict path buf) s =
     (case resample_target (sampling_rate self) r of
        None \<Rightarrow>
          (Inr [(''path'', PStr path),
                (''array'', PArr (if mono_flag self then librosa_to_mono L (ndarray_T L raw)
                                  else ndarray_T L raw)),
                (''sampling_rate'', PInt r)],
           s\<lparr>trace := trace s @ [Invoke soundfile, SfRead, Transpose] @
                        (if mono_flag self then [ToMono] else [])\<rparr>)
      | Some target \<Rightarrow>
          (Inr [(''path'', PStr path),
                (''array'', PArr (librosa_resample L
                   (if mono_flag self then librosa_to_mono L (ndarray_T L raw)
                    else ndarray_T L raw) r target)),
                (''sampling_rate'', PInt target)],
           s\<lparr>trace := trace s @ [Invoke soundfile, SfRead, Transpose] @
                        (if mono_flag self then [ToMono] else []) @
                        [LibrosaResample r target]\<rparr>))"
  using assms(1,2)
  by (simp add: decode_example_soundfile soundfile_run [OF assms(3-5)] decoded_def Let_def
      split: option.splits)

theorem soundfile_transposed_first_witness:
  "archived (audio (Some 16) True True) \<and> \<not> endswith ''a.wav'' ''.mp3'' \<and>
   has_librosa sym_libs \<and> has_soundfile sym_libs \<and>
   sf_read sym_libs [44, 1, 2, 3, 4] = Inr (SfSamples [1, 2, 3, 4], 44) \<and>
   decode_example sym_libs (audio (Some 16) True True) (Dict ''a.wav'' [44, 1, 2, 3, 4]) fresh =
     (Inr [(''path'', PStr ''a.wav''),
           (''array'', PArr (ResampleOf (ToMonoOf (T (SfSamples [1, 2, 3, 4]))) 44 16)),
           (''sampling_rate'', PInt 16)],
      \<lparr>resampler = None,
       trace = [Invoke soundfile, SfRead, Transpose, ToMono, LibrosaResample 44 16]\<rparr>)"
proof -
  have h: "archived (audio (Some 16) True True)" "\<not> endswith ''a.wav'' ''.mp3''"
    "has_librosa sym_libs" "has_soundfile sym_libs"
    "sf_read sym_libs [44, 1, 2, 3, 4] = Inr (SfSamples [1, 2, 3, 4], 44)"
    by (simp_all add: audio_def endswith_def sym_libs_def)
  from soundfile_transposed_first [OF h, of fresh] h show ?thesis
    by (simp add: audio_def fresh_def resample_target_def sym_libs_def)
qed

section \<open>Missing libraries\<close>

text \<open>
  C7, as the code has it. A failing import makes \<^verbatim>\<open>decode_example\<close> raise
  \<^verbatim>\<open>ImportError\<close> before anything is read, with one message for each backend method:
  without librosa, a reference that is not an mp3 file fails with the message naming
  librosa, in both storage modes; without torchaudio or its transforms, an mp3 reference
  fails with the message naming mp3 and torchaudio; with both but without the sox backend,
  it fails with the message naming sox.
\<close>

theorem missing_library_errors:
  "(\<not> has_librosa L \<and> \<not> endswith path ''.mp3'' \<longrightarrow>
      decode_example L (self\<lparr>archived := False\<rparr>) (Str path) s =
        (Inl (Exn ''ImportError'' ''To support decoding audio files, please install 'librosa'.''),
         s\<lparr>trace := trace s @ [Invoke librosa]\<rparr>) \<and>
      decode_example L (self\<lparr>archived := True\<rparr>) (Dict path buf) s =
        (Inl (Exn ''ImportError'' ''To support decoding audio files, please install 'librosa'.''),
         s\<lparr>trace := trace s @ [Invoke soundfile]\<rparr>)) \<and>
   (well_shaped self val \<and> endswith (path_of val) ''.mp3'' \<and>
    \<not> (has_torchaudio L \<and> has_transforms L) \<longrightarrow>
      decode_example L self val s =
        (Inl (Exn ''ImportError''
                ''To support decoding 'mp3' audio files, please install 'torchaudio'.''),
         s\<lparr>trace := trace s @ [Invoke torchaudio]\<rparr>)) \<and>
   (well_shaped self val \<and> endswith (path_of val) ''.mp3'' \<and>
    has_torchaudio L \<and> has_transforms L \<and> \<not> has_sox_io L \<longrightarrow>
      decode_example L self val s =
        (Inl (Exn ''ImportError'' ''To support decoding 'mp3' audio files, please install 'sox'.''),
         s\<lparr>trace := trace s @ [Invoke torchaudio, SetAudioBackend]\<rparr>))"
proof (intro conjI impI)
  assume "\<not> has_librosa L \<and> \<not> endswith path ''.mp3''"
  then show "decode_example L (self\<lparr>archived := False\<rparr>) (Str path) s =
        (Inl (Exn ''ImportError'' ''To support decoding audio files, please install 'librosa'.''),
         s\<lparr>trace := trace s @ [Invoke librosa]\<rparr>)"
    and "decode_example L (self\<lparr>archived := True\<rparr>) (Dict path buf) s =
        (Inl (Exn ''ImportError'' ''To support decoding audio files, please install 'librosa'.''),
         s\<lparr>trace := trace s @ [Invoke soundfile]\<rparr>)"
    by (simp_all add: decode_example_def decoded_def decode_example_with_librosa_def
        decode_example_with_soundfile_def emit_def librosa_missing_def)
next
  assume "well_shaped self val \<and> endswith (path_of val) ''.mp3'' \<and>
    \<not> (has_torchaudio L \<and> has_transforms L)"
  then show "decode_example L self val s =
        (Inl (Exn ''ImportError''
                ''To support decoding 'mp3' audio files, please install 'torchaudio'.''),
         s\<lparr>trace := trace s @ [Invoke torchaudio]\<rparr>)"
    by (simp add: decode_example_mp3 torchaudio_unavailable(1) decoded_def torchaudio_missing_def)
next
  assume "well_shaped self val \<and> endswith (path_of val) ''.mp3'' \<and>
    has_torchaudio L \<and> has_transforms L \<and> \<not> has_sox_io L"
  then show "decode_example L self val s =
        (Inl (Exn ''ImportError'' ''To support decoding 'mp3' audio files, please install 'sox'.''),
         s\<lparr>trace := trace s @ [Invoke torchaudio, SetAudioBackend]\<rparr>)"
    by (simp add: decode_example_mp3 torchaudio_unavailable(2) decoded_def sox_missing_def)
qed

theorem missing_library_errors_witness:
  "decode_example (sym_libs\<lparr>has_librosa := False\<rparr>) (audio None True False) (Str ''a.wav'') fresh =
     (Inl (Exn ''ImportError'' ''To support decoding audio files, please install 'librosa'.''),
      \<lparr>resampler = None, trace = [Invoke librosa]\<rparr>) \<and>
   decode_example (sym_libs\<lparr>has_torchaudio := False\<rparr>) (audio None True False) (Str ''a.mp3'') fresh =
     (Inl (Exn ''ImportError''
             ''To support decoding 'mp3' audio files, please install 'torchaudio'.''),
      \<lparr>resampler = None, trace = [Invoke torchaudio]\<rparr>) \<and>
   decode_example (sym_libs\<lparr>has_sox_io := False\<rparr>) (audio None True True)
       (Dict ''a.mp3'' [44, 1, 2, 3, 4]) fresh =
     (Inl (Exn ''ImportError'' ''To support decoding 'mp3' audio files, please install 'sox'.''),
      \<lparr>resampler = None, trace = [Invoke torchaudio, SetAudioBackend]\<rparr>)"
proof -
  note a = missing_library_errors [where L = "sym_libs\<lparr>has_librosa := False\<rparr>"
      and path = "''a.wav''" and self = "audio None True False" and s = fresh, THEN conjunct1]
  note b = missing_library_errors [where L = "sym_libs\<lparr>has_torchaudio := False\<rparr>"
      and val = "Str ''a.mp3''" and self = "audio None True False" and s = fresh,
      THEN conjunct2, THEN conjunct1]
  note c = missing_library_errors [where L = "sym_libs\<lparr>has_sox_io := False\<rparr>"
      and val = "Dict ''a.mp3'' [44, 1, 2, 3, 4]" and self = "audio None True True" and s = fresh,
      THEN conjunct2, THEN conjunct2]
  have a': "decode_example (sym_libs\<lparr>has_librosa := False\<rparr>) (audio None True False) (Str ''a.wav'') fresh =
     (Inl (Exn ''ImportError'' ''To support decoding audio files, please install 'librosa'.''),
      \<lparr>resampler = None, trace = [Invoke librosa]\<rparr>)"
    using a by (simp add: sym_libs_def endswith_def audio_def fresh_def)
  have b': "decode_example (sym_libs\<lparr>has_torchaudio := False\<rparr>) (audio None True False) (Str ''a.mp3'') fresh =
     (Inl (Exn ''ImportError''
             ''To support decoding 'mp3' audio files, please install 'torchaudio'.''),
      \<lparr>resampler = None, trace = [Invoke torchaudio]\<rparr>)"
    using b by (simp add: sym_libs_def endswith_def audio_def fresh_def)
  have c': "decode_example (sym_libs\<lparr>has_sox_io := False\<rparr>) (audio None True True)
       (Dict ''a.mp3'' [44, 1, 2, 3, 4]) fresh =
     (Inl (Exn ''ImportError'' ''To support decoding 'mp3' audio files, please install 'sox'.''),
      \<lparr>resampler = None, trace = [Invoke torchaudio, SetAudioBackend]\<rparr>)"
    using c by (simp add: sym_libs_def endswith_def audio_def fresh_def)
  from a' b' c' show ?thesis by simp
qed

text \<open>
  C7, as stated, fails: the error is not distinct for each capability. A missing
  soundfile (the buffer decoder) and a missing librosa (the path decoder) give the same
  exception, and its message names librosa; a missing \<^verbatim>\<open>torchaudio.transforms\<close> (the
  resampler) and a missing torchaudio (the mp3 decoder) give the same exception as well.
\<close>

theorem missing_library_errors_coincide:
  "decode_example (sym_libs\<lparr>has_soundfile := False\<rparr>) (audio None True True)
       (Dict ''a.wav'' [44, 1, 2, 3, 4]) fresh =
     (Inl (Exn ''ImportError'' ''To support decoding audio files, please install 'librosa'.''),
      \<lparr>resampler = None, trace = [Invoke soundfile]\<rparr>) \<and>
   fst (decode_example (sym_libs\<lparr>has_soundfile := False\<rparr>) (audio None True True)
       (Dict ''a.wav'' [44, 1, 2, 3, 4]) fresh) =
   fst (decode_example (sym_libs\<lparr>has_librosa := False\<rparr>) (audio None True False)
       (Str ''a.wav'') fresh) \<and>
   fst (decode_example (sym_libs\<lparr>has_transforms := False\<rparr>) (audio (Some 16) True False)
       (Str ''a.mp3'') fresh) =
   fst (decode_example (sym_libs\<lparr>has_torchaudio := False\<rparr>) (audio (Some 16) True False)
       (Str ''a.mp3'') fresh)"
  by (simp add: decode_example_def decoded_def endswith_def audio_def fresh_def sym_libs_def
      decode_example_with_soundfile_def decode_example_with_librosa_def
      decode_example_with_torchaudio_def emit_def librosa_missing_def torchaudio_missing_def)

section \<open>The batch\<close>

text \<open>
  C6, as the code has it. For a sequence that is not empty and whose references all
  decode, \<^verbatim>\<open>decode_batch\<close> returns a dictionary in which each of the keys
  \<^verbatim>\<open>"path"\<close>, \<^verbatim>\<open>"array"\<close>, \<^verbatim>\<open>"sampling_rate"\<close> holds the values of that key in
  the results of the successive \<^verbatim>\<open>decode_example\<close> calls, in the order of the input;
  the column of paths is the list of the paths of the input.
\<close>

theorem decode_batch_columns:
  assumes "vals \<noteq> []" and "decode_each L self vals s = (Inr exs, s')"
  shows "snd (decode_batch L self vals s) = s' \<and>
         column ''path'' (decode_batch L self vals s) = those (map (field ''path'') exs) \<and>
         column ''array'' (decode_batch L self vals s) = those (map (field ''array'') exs) \<and>
         column ''sampling_rate'' (decode_batch L self vals s) =
           those (map (field ''sampling_rate'') exs) \<and>
         column ''path'' (decode_batch L self vals s) = Some (map (\<lambda>val. PStr (path_of val)) vals) \<and>
         length exs = length vals"
proof -
  note shape = decode_each_shape [OF assms(2)]
  then have len: "length exs = length vals"
    by (simp add: list_all2_lengthD)
  with assms(1) have ne: "exs \<noteq> []" by auto
  have run: "decode_batch L self vals s = (Inr (foldl add_example Map.empty exs), s')"
    by (simp add: decode_batch_def decode_batch_loop_each assms(2))
  have col: "column k (decode_batch L self vals s) = those (map (field k) exs)"
    if "k \<in> {''path'', ''array'', ''sampling_rate''}" for k
    using that ne
    by (simp add: run column_def columns_of_triples [OF shape] append_sections option.map_ident)
  show ?thesis
    using col [of "''path''"] col [of "''array''"] col [of "''sampling_rate''"]
    by (simp add: run len path_column [OF shape])
qed

theorem decode_batch_columns_witness:
  "[Str ''a.wav'', Str ''b.mp3''] \<noteq> [] \<and>
   column ''path'' (decode_batch sym_libs (audio None True False) [Str ''a.wav'', Str ''b.mp3''] fresh) =
     Some [PStr ''a.wav'', PStr ''b.mp3''] \<and>
   column ''array'' (decode_batch sym_libs (audio None True False) [Str ''a.wav'', Str ''b.mp3''] fresh) =
     Some [PArr (LibrosaSamples [1, 2, 3, 4] None True),
           PArr (MeanOf (NumpyOf (Loaded [5, 6, 7, 8])))] \<and>
   column ''sampling_rate'' (decode_batch sym_libs (audio None True False)
       [Str ''a.wav'', Str ''b.mp3''] fresh) = Some [PInt 44, PInt 48]"
proof -
  have each: "decode_each sym_libs (audio None True False) [Str ''a.wav'', Str ''b.mp3''] fresh =
    (Inr [[(''path'', PStr ''a.wav''), (''array'', PArr (LibrosaSamples [1, 2, 3, 4] None True)),
           (''sampling_rate'', PInt 44)],
          [(''path'', PStr ''b.mp3''), (''array'', PArr (MeanOf (NumpyOf (Loaded [5, 6, 7, 8])))),
           (''sampling_rate'', PInt 48)]],
     \<lparr>resampler = None,
      trace = [Invoke librosa, Open, LibrosaLoad,
               Invoke torchaudio, SetAudioBackend, TorchaudioLoad, Numpy, Mean]\<rparr>)"
    by (simp add: sym_eval)
  have ne: "[Str ''a.wav'', Str ''b.mp3''] \<noteq> []" by simp
  from decode_batch_columns [OF ne each] show ?thesis by simp
qed

text \<open>
  C6, as stated, fails on the empty sequence: the dictionary returned has no key
  \<^verbatim>\<open>"path"\<close>, so no column, not even an empty one, is found under it.
\<close>

theorem decode_batch_empty_no_path:
  "column ''path'' (decode_batch sym_libs (audio None True False) [] fresh) = None \<and>
   column ''path'' (decode_batch sym_libs (audio None True False) [] fresh) \<noteq> Some []"
  by (simp add: decode_batch_def column_def)

section \<open>The batch of no references\<close>

text \<open>
  C10. \<^verbatim>\<open>decode_batch\<close> of the empty sequence returns the dictionary with no key at
  all: none of \<^verbatim>\<open>"path"\<close>, \<^verbatim>\<open>"array"\<close>, \<^verbatim>\<open>"sampling_rate"\<close> is bound, and the
  instance state is untouched.
\<close>

theorem decode_batch_empty:
  "decode_batch L self [] s = (Inr Map.empty, s) \<and>
   (\<exists>d. fst (decode_batch L self [] s) = Inr d \<and> dom d = {} \<and>
        d ''path'' = None \<and> d ''array'' = None \<and> d ''sampling_rate'' = None)"
  by (simp add: decode_batch_def)

end
